theory Spec2Isabelle
  imports Main "HOL-Library.Word" "HOL-Library.Sublist"
begin

section \<open>JavaScript strings\<close>

text \<open>
  A JavaScript string is a sequence of 16-bit code units. String literals of the source
  are written with \<open>lit\<close>; all of them are ASCII.
\<close>

type_synonym jsstring = "16 word list"

definition lit :: "string \<Rightarrow> jsstring" where
  "lit s = map of_char s"

text \<open>
  \<open>String.prototype.trim\<close> removes the WhiteSpace and LineTerminator code points of
  ECMAScript from both ends: TAB, LF, VT, FF, CR, SP, NBSP, U+1680, U+2000 to U+200A,
  U+2028, U+2029, U+202F, U+205F, U+3000 and U+FEFF.
\<close>

definition isWhiteSpace :: "16 word \<Rightarrow> bool" where
  "isWhiteSpace c =
     (c \<in> {0x0009, 0x000A, 0x000B, 0x000C, 0x000D, 0x0020, 0x00A0, 0x1680,
            0x2028, 0x2029, 0x202F, 0x205F, 0x3000, 0xFEFF}
      \<or> (0x2000 \<le> c \<and> c \<le> 0x200A))"

definition trim :: "jsstring \<Rightarrow> jsstring" where
  "trim s = rev (dropWhile isWhiteSpace (rev (dropWhile isWhiteSpace s)))"


section \<open>Values, exceptions and the platform\<close>

text \<open>
  What \<open>response.json()\<close> resolves to: a JSON value. The type of numbers is a parameter;
  an object is the list of its properties. \<open>jsval\<close> adds \<open>undefined\<close>, which a missing
  property reads as and which \<open>responseText\<close> holds until it is assigned.
\<close>

datatype 'n json =
    JNull
  | JBool bool
  | JNum 'n
  | JStr jsstring
  | JArr "'n json list"
  | JObj "(jsstring \<times> 'n json) list"

datatype 'n jsval = Undefined | Val "'n json"

text \<open>
  Everything the \<open>try\<close> block of \<open>handleSubmit\<close> can throw is an error object with a
  string \<open>message\<close>, the only property the \<open>catch\<close> block reads.
\<close>

datatype exn =
    Error (message: jsstring)
  | TypeError (message: jsstring)
  | SyntaxError (message: jsstring)
  | DOMException (message: jsstring)

definition and_then :: "exn + 'a \<Rightarrow> ('a \<Rightarrow> exn + 'b) \<Rightarrow> exn + 'b" where
  "and_then r f = (case r of Inl e \<Rightarrow> Inl e | Inr x \<Rightarrow> f x)"

text \<open>
  A \<open>Message\<close> object: every message the component creates has exactly the properties
  \<open>role\<close> and \<open>content\<close>.
\<close>

record 'n message =
  role :: jsstring
  content :: "'n jsval"

text \<open>
  The object literals handed to \<open>JSON.stringify\<close>: property names with a string, a
  number literal or the message history as value.
\<close>

datatype 'n field = Text jsstring | Number nat | Messages "'n message list"

type_synonym 'n object_literal = "(jsstring \<times> 'n field) list"

text \<open>
  The parts of the browser that the component calls and that this repository does not
  define are parameters: the truth value of a number, the text of a value that is not a
  string, the message of the \<open>TypeError\<close> for reading a property of \<open>undefined\<close> or
  \<open>null\<close>, and \<open>JSON.stringify\<close>.
\<close>

record 'n engine =
  ToBoolean_number :: "'n \<Rightarrow> bool"
  ToString_other :: "'n json \<Rightarrow> exn + jsstring"
  cannot_read :: "'n jsval \<Rightarrow> jsstring \<Rightarrow> jsstring"
  JSON_stringify :: "'n object_literal \<Rightarrow> jsstring"

definition truthy :: "'n engine \<Rightarrow> 'n jsval \<Rightarrow> bool" where
  "truthy eng v =
     (case v of
        Undefined \<Rightarrow> False
      | Val JNull \<Rightarrow> False
      | Val (JBool b) \<Rightarrow> b
      | Val (JNum n) \<Rightarrow> ToBoolean_number eng n
      | Val (JStr s) \<Rightarrow> s \<noteq> []
      | Val (JArr xs) \<Rightarrow> True
      | Val (JObj kvs) \<Rightarrow> True)"

definition ToString :: "'n engine \<Rightarrow> 'n json \<Rightarrow> exn + jsstring" where
  "ToString eng v = (case v of JStr s \<Rightarrow> Inr s | _ \<Rightarrow> ToString_other eng v)"

text \<open>
  \<open>new Error(v)\<close>: the message is \<open>ToString v\<close> unless \<open>v\<close> is \<open>undefined\<close>; the
  conversion itself may throw.
\<close>

definition new_Error :: "'n engine \<Rightarrow> 'n jsval \<Rightarrow> exn" where
  "new_Error eng v =
     (case v of
        Undefined \<Rightarrow> Error []
      | Val j \<Rightarrow> (case ToString eng j of Inl e \<Rightarrow> e | Inr s \<Rightarrow> Error s))"

text \<open>
  Reading a property by name, for the names this component reads (\<open>error\<close>, \<open>message\<close>,
  \<open>content\<close>, \<open>text\<close>, \<open>choices\<close>), none of which a built-in prototype defines: it throws
  on \<open>undefined\<close> and \<open>null\<close>, looks the name up in an object and is \<open>undefined\<close> on
  every other value.
\<close>

definition get_named :: "'n engine \<Rightarrow> 'n jsval \<Rightarrow> jsstring \<Rightarrow> exn + 'n jsval" where
  "get_named eng v k =
     (case v of
        Undefined \<Rightarrow> Inl (TypeError (cannot_read eng v k))
      | Val JNull \<Rightarrow> Inl (TypeError (cannot_read eng v k))
      | Val (JObj kvs) \<Rightarrow> Inr (case map_of kvs k of None \<Rightarrow> Undefined | Some x \<Rightarrow> Val x)
      | Val _ \<Rightarrow> Inr Undefined)"

text \<open>
  Reading \<open>v[0]\<close>: the first element of an array, the first code unit of a string, the
  property \<open>"0"\<close> of an object; \<open>undefined\<close> when there is none.
\<close>

definition get_index0 :: "'n engine \<Rightarrow> 'n jsval \<Rightarrow> exn + 'n jsval" where
  "get_index0 eng v =
     (case v of
        Undefined \<Rightarrow> Inl (TypeError (cannot_read eng v (lit ''0'')))
      | Val JNull \<Rightarrow> Inl (TypeError (cannot_read eng v (lit ''0'')))
      | Val (JArr xs) \<Rightarrow> Inr (case xs of [] \<Rightarrow> Undefined | x # _ \<Rightarrow> Val x)
      | Val (JStr s) \<Rightarrow> Inr (case s of [] \<Rightarrow> Undefined | c # _ \<Rightarrow> Val (JStr [c]))
      | Val (JObj kvs) \<Rightarrow>
          Inr (case map_of kvs (lit ''0'') of None \<Rightarrow> Undefined | Some x \<Rightarrow> Val x)
      | Val _ \<Rightarrow> Inr Undefined)"

text \<open>The optional chain \<open>v?.name\<close>.\<close>

definition get_optional :: "'n engine \<Rightarrow> 'n jsval \<Rightarrow> jsstring \<Rightarrow> exn + 'n jsval" where
  "get_optional eng v k =
     (if v = Undefined \<or> v = Val JNull then Inr Undefined else get_named eng v k)"


section \<open>Component state and the preference store\<close>

record 'n state =
  messages :: "'n message list"
  input :: jsstring
  isLoading :: bool
  apiKey :: jsstring
  provider :: jsstring
  showSettings :: bool

text \<open>The \<open>useState\<close> initialisers (lines 6 to 16).\<close>

definition initial_state :: "jsstring \<Rightarrow> 'n state" where
  "initial_state agentDescription =
     \<lparr> messages =
         [\<lparr> role = lit ''assistant'',
            content = Val (JStr (lit ''Hello! I'm '' @ agentDescription
                                  @ lit ''. How can I help you today?'')) \<rparr>],
       input = [],
       isLoading = False,
       apiKey = [],
       provider = lit ''anthropic'',
       showSettings = False \<rparr>"

text \<open>
  \<open>localStorage\<close>: \<open>getItem\<close> of a missing key is \<open>null\<close> (\<open>None\<close>), \<open>setItem\<close>
  overwrites, \<open>removeItem\<close> deletes. The store is taken to accept every write.
\<close>

type_synonym storage = "jsstring \<rightharpoonup> jsstring"

definition getItem :: "storage \<Rightarrow> jsstring \<Rightarrow> jsstring option" where
  "getItem st k = st k"

definition setItem :: "jsstring \<Rightarrow> jsstring \<Rightarrow> storage \<Rightarrow> storage" where
  "setItem k v st = st(k \<mapsto> v)"

definition removeItem :: "jsstring \<Rightarrow> storage \<Rightarrow> storage" where
  "removeItem k st = st(k := None)"

text \<open>The mount effect (lines 20 to 25): a stored entry is taken over when it is truthy.\<close>

definition load :: "storage \<Rightarrow> 'n state \<Rightarrow> 'n state" where
  "load st s =
     (let storedKey = getItem st (lit ''ai_api_key'');
          storedProvider = getItem st (lit ''ai_provider'');
          s1 = (case storedKey of
                  None \<Rightarrow> s
                | Some k \<Rightarrow> if k \<noteq> [] then s\<lparr>apiKey := k\<rparr> else s)
      in (case storedProvider of
            None \<Rightarrow> s1
          | Some p \<Rightarrow> if p \<noteq> [] then s1\<lparr>provider := p\<rparr> else s1))"

text \<open>The effect on \<open>apiKey\<close> (lines 28 to 32); it runs when \<open>apiKey\<close> has changed.\<close>

definition settings_effect :: "'n state \<Rightarrow> 'n state" where
  "settings_effect s = (if apiKey s = [] then s\<lparr>showSettings := True\<rparr> else s)"

definition saveSettings :: "storage \<Rightarrow> 'n state \<Rightarrow> storage \<times> 'n state" where
  "saveSettings st s =
     (if trim (apiKey s) \<noteq> []
      then (setItem (lit ''ai_provider'') (provider s)
              (setItem (lit ''ai_api_key'') (trim (apiKey s)) st),
            s\<lparr>showSettings := False\<rparr>)
      else (st, s))"

definition clearSettings :: "storage \<Rightarrow> 'n state \<Rightarrow> storage \<times> 'n state" where
  "clearSettings st s =
     (removeItem (lit ''ai_provider'') (removeItem (lit ''ai_api_key'') st),
      s\<lparr>apiKey := [], provider := lit ''anthropic'', showSettings := True\<rparr>)"

section \<open>Provider adapters\<close>

text \<open>
  The argument of \<open>fetch\<close>. The body is the text that \<open>JSON.stringify\<close> makes of the
  object literal.
\<close>

record request =
  url :: jsstring
  http_method :: jsstring
  headers :: "(jsstring \<times> jsstring) list"
  body :: jsstring

text \<open>
  What comes back: \<open>fetch\<close> rejects, or resolves to a response with a status whose
  \<open>json()\<close> rejects or resolves to the parsed body. \<open>response.ok\<close> is true for the
  statuses 200 to 299.
\<close>

record 'n response =
  status :: nat
  json :: "exn + 'n json"

datatype 'n fetch_outcome = Rejected exn | Fulfilled "'n response"

definition ok :: "'n response \<Rightarrow> bool" where
  "ok response = (200 \<le> status response \<and> status response \<le> 299)"

text \<open>
  Each adapter is an \<open>async\<close> function that suspends at \<open>await fetch\<close>. It is split
  there: \<open>_fetch\<close> is the call it makes (it runs synchronously inside the submit handler),
  \<open>_resume\<close> is the rest of its body, a function of how the round trip ended.
\<close>

definition callAnthropicAPI_fetch ::
  "'n engine \<Rightarrow> jsstring \<Rightarrow> 'n message list \<Rightarrow> request" where
  "callAnthropicAPI_fetch eng apiKey' messageHistory =
     \<lparr> url = lit ''https://api.anthropic.com/v1/messages'',
       http_method = lit ''POST'',
       headers =
         [(lit ''Content-Type'', lit ''application/json''),
          (lit ''x-api-key'', apiKey'),
          (lit ''anthropic-version'', lit ''2023-06-01'')],
       body = JSON_stringify eng
         [(lit ''model'', Text (lit ''claude-3-5-sonnet-20241022'')),
          (lit ''max_tokens'', Number 2048),
          (lit ''messages'', Messages messageHistory)] \<rparr>"

definition callOpenAIAPI_fetch ::
  "'n engine \<Rightarrow> jsstring \<Rightarrow> 'n message list \<Rightarrow> request" where
  "callOpenAIAPI_fetch eng apiKey' messageHistory =
     \<lparr> url = lit ''https://api.openai.com/v1/chat/completions'',
       http_method = lit ''POST'',
       headers =
         [(lit ''Content-Type'', lit ''application/json''),
          (lit ''Authorization'', lit ''Bearer '' @ apiKey')],
       body = JSON_stringify eng
         [(lit ''model'', Text (lit ''gpt-4'')),
          (lit ''messages'', Messages messageHistory)] \<rparr>"

text \<open>
  The error branch shared by both adapters (lines 73 to 76 and 95 to 98):
  \<open>throw new Error(error.error?.message || 'API request failed')\<close>, where \<open>error\<close> is what
  \<open>response.json()\<close> resolved to. The result is the exception that leaves the branch.
\<close>

definition api_error :: "'n engine \<Rightarrow> 'n json \<Rightarrow> exn" where
  "api_error eng error =
     (case and_then (get_named eng (Val error) (lit ''error''))
             (\<lambda>e. get_optional eng e (lit ''message'')) of
        Inl thrown \<Rightarrow> thrown
      | Inr m \<Rightarrow>
          new_Error eng (if truthy eng m then m else Val (JStr (lit ''API request failed''))))"

definition callAnthropicAPI_resume ::
  "'n engine \<Rightarrow> 'n fetch_outcome \<Rightarrow> exn + 'n jsval" where
  "callAnthropicAPI_resume eng outcome =
     (case outcome of
        Rejected e \<Rightarrow> Inl e
      | Fulfilled response \<Rightarrow>
          if \<not> ok response
          then and_then (json response) (\<lambda>error. Inl (api_error eng error))
          else and_then (json response) (\<lambda>data.
               and_then (get_named eng (Val data) (lit ''content'')) (\<lambda>c.
               and_then (get_index0 eng c) (\<lambda>first.
               get_named eng first (lit ''text'')))))"

definition callOpenAIAPI_resume ::
  "'n engine \<Rightarrow> 'n fetch_outcome \<Rightarrow> exn + 'n jsval" where
  "callOpenAIAPI_resume eng outcome =
     (case outcome of
        Rejected e \<Rightarrow> Inl e
      | Fulfilled response \<Rightarrow>
          if \<not> ok response
          then and_then (json response) (\<lambda>error. Inl (api_error eng error))
          else and_then (json response) (\<lambda>data.
               and_then (get_named eng (Val data) (lit ''choices'')) (\<lambda>c.
               and_then (get_index0 eng c) (\<lambda>first.
               and_then (get_named eng first (lit ''message'')) (\<lambda>m.
               get_named eng m (lit ''content''))))))"


section \<open>The turn protocol\<close>

datatype adapter = Anthropic | OpenAI

text \<open>
  The rest of \<open>handleSubmit\<close> after the adapter call (lines 127 to 141), on the state
  current by then: both branches use the functional update \<open>prev => [...prev, m]\<close>, and
  \<open>finally\<close> clears the flag. The argument is what the adapter call returned or threw.
\<close>

definition handleSubmit_resume :: "exn + 'n jsval \<Rightarrow> 'n state \<Rightarrow> 'n state" where
  "handleSubmit_resume r s =
     (let reply =
            (case r of
               Inr responseText \<Rightarrow> \<lparr> role = lit ''assistant'', content = responseText \<rparr>
             | Inl error \<Rightarrow>
                 \<lparr> role = lit ''assistant'',
                   content = Val (JStr (lit ''Error: '' @ message error
                              @ lit ''. Please check your API key in settings.'')) \<rparr>)
      in s\<lparr>messages := messages s @ [reply], isLoading := False\<rparr>)"

text \<open>
  \<open>handleSubmit\<close> up to its first \<open>await\<close> (lines 104 to 125). It returns the new state
  and, when it called an adapter, which one is now awaited and the \<open>fetch\<close> call made.
  With a provider that is neither tag no adapter is called, nothing is awaited, and the
  handler runs to its end at once with \<open>responseText\<close> still \<open>undefined\<close>.
\<close>

definition handleSubmit ::
  "'n engine \<Rightarrow> 'n state \<Rightarrow> 'n state \<times> (adapter \<times> request) option" where
  "handleSubmit eng s =
     (if trim (input s) = [] \<or> isLoading s \<or> apiKey s = [] then (s, None)
      else
        let userMessage = \<lparr> role = lit ''user'', content = Val (JStr (input s)) \<rparr>;
            newMessages = messages s @ [userMessage];
            s1 = s\<lparr>messages := newMessages, input := [], isLoading := True\<rparr>;
            messageHistory =
              map (\<lambda>msg. \<lparr> role = role msg, content = content msg \<rparr>) newMessages
        in if provider s = lit ''anthropic''
           then (s1, Some (Anthropic, callAnthropicAPI_fetch eng (apiKey s) messageHistory))
           else if provider s = lit ''openai''
           then (s1, Some (OpenAI, callOpenAIAPI_fetch eng (apiKey s) messageHistory))
           else (handleSubmit_resume (Inr Undefined) s1, None))"

text \<open>The awaited adapter finishes and \<open>handleSubmit\<close> runs to its end.\<close>

definition adapter_resume ::
  "'n engine \<Rightarrow> adapter \<Rightarrow> 'n fetch_outcome \<Rightarrow> exn + 'n jsval" where
  "adapter_resume eng a outcome =
     (case a of
        Anthropic \<Rightarrow> callAnthropicAPI_resume eng outcome
      | OpenAI \<Rightarrow> callOpenAIAPI_resume eng outcome)"

definition settle :: "'n engine \<Rightarrow> adapter \<Rightarrow> 'n fetch_outcome \<Rightarrow> 'n state \<Rightarrow> 'n state" where
  "settle eng a outcome s = handleSubmit_resume (adapter_resume eng a outcome) s"

text \<open>A whole turn with nothing else happening in between.\<close>

definition turn :: "'n engine \<Rightarrow> 'n fetch_outcome \<Rightarrow> 'n state \<Rightarrow> 'n state" where
  "turn eng outcome s =
     (case handleSubmit eng s of
        (s1, None) \<Rightarrow> s1
      | (s1, Some (a, req)) \<Rightarrow> settle eng a outcome s1)"


section \<open>The component as a transition system\<close>

text \<open>
  The page session: the component state, the store, and the suspended \<open>handleSubmit\<close>
  (the adapter it awaits) together with the \<open>fetch\<close> calls made so far. Events are the
  handlers of the view, the two settings operations, and the end of a round trip.
\<close>

record 'n session =
  ui :: "'n state"
  store :: storage
  awaiting :: "adapter option"
  fetched :: "request list"

datatype 'n event =
    ChangeInput jsstring
  | ChangeApiKey jsstring
  | ChangeProvider jsstring
  | OpenSettings
  | CancelSettings
  | Save
  | Clear
  | Submit
  | Settled "'n fetch_outcome"

definition step :: "'n engine \<Rightarrow> 'n session \<Rightarrow> 'n event \<Rightarrow> 'n session" where
  "step eng c ev =
     (case ev of
        ChangeInput v \<Rightarrow> c\<lparr>ui := (ui c)\<lparr>input := v\<rparr>\<rparr>
      | ChangeApiKey v \<Rightarrow>
          if v = apiKey (ui c) then c
          else c\<lparr>ui := settings_effect ((ui c)\<lparr>apiKey := v\<rparr>)\<rparr>
      | ChangeProvider v \<Rightarrow> c\<lparr>ui := (ui c)\<lparr>provider := v\<rparr>\<rparr>
      | OpenSettings \<Rightarrow> c\<lparr>ui := (ui c)\<lparr>showSettings := True\<rparr>\<rparr>
      | CancelSettings \<Rightarrow> c\<lparr>ui := (ui c)\<lparr>showSettings := False\<rparr>\<rparr>
      | Save \<Rightarrow>
          (case saveSettings (store c) (ui c) of (st, s) \<Rightarrow> c\<lparr>ui := s, store := st\<rparr>)
      | Clear \<Rightarrow>
          (case clearSettings (store c) (ui c) of (st, s) \<Rightarrow> c\<lparr>ui := s, store := st\<rparr>)
      | Submit \<Rightarrow>
          (case handleSubmit eng (ui c) of
             (s, None) \<Rightarrow> c\<lparr>ui := s\<rparr>
           | (s, Some (a, req)) \<Rightarrow>
               c\<lparr>ui := s, awaiting := Some a, fetched := fetched c @ [req]\<rparr>)
      | Settled outcome \<Rightarrow>
          (case awaiting c of
             None \<Rightarrow> c
           | Some a \<Rightarrow> c\<lparr>ui := settle eng a outcome (ui c), awaiting := None\<rparr>))"

definition run :: "'n engine \<Rightarrow> 'n session \<Rightarrow> 'n event list \<Rightarrow> 'n session" where
  "run eng c evs = foldl (step eng) c evs"


section \<open>A concrete platform for evaluation\<close>

text \<open>
  An engine with integer numbers, for evaluating the component on concrete inputs. Its
  \<open>JSON.stringify\<close> only renders the property names; no evaluation below reads a body.
\<close>

definition example_engine :: "int engine" where
  "example_engine =
     \<lparr> ToBoolean_number = (\<lambda>n. n \<noteq> 0),
       ToString_other = (\<lambda>v. Inr (lit ''[object Object]'')),
       cannot_read = (\<lambda>v k. lit ''Cannot read properties (reading '' @ k @ lit '')''),
       JSON_stringify = (\<lambda>obj. concat (map fst obj)) \<rparr>"

definition example_session :: "jsstring \<Rightarrow> jsstring \<Rightarrow> jsstring \<Rightarrow> int session" where
  "example_session key prov text =
     \<lparr> ui = (initial_state (lit ''A sarcastic cooking assistant''))
              \<lparr>input := text, apiKey := key, provider := prov\<rparr>,
       store = Map.empty,
       awaiting = None,
       fetched = [] \<rparr>"

text \<open>
  The responses of the concrete scenarios: HTTP 200 with \<open>{content: [{text: "hi there"}]}\<close>,
  HTTP 200 with \<open>{choices: [{message: {content: "hi there"}}]}\<close>, and HTTP 401 with
  \<open>{error: {message: "bad key"}}\<close>.
\<close>

definition anthropic_hi_there :: "int fetch_outcome" where
  "anthropic_hi_there =
     Fulfilled \<lparr> status = 200,
                 json = Inr (JObj [(lit ''content'',
                          JArr [JObj [(lit ''text'', JStr (lit ''hi there''))]])]) \<rparr>"

definition openai_hi_there :: "int fetch_outcome" where
  "openai_hi_there =
     Fulfilled \<lparr> status = 200,
                 json = Inr (JObj [(lit ''choices'',
                          JArr [JObj [(lit ''message'',
                            JObj [(lit ''content'', JStr (lit ''hi there''))])]])]) \<rparr>"

definition unauthorized_bad_key :: "int response" where
  "unauthorized_bad_key =
     \<lparr> status = 401,
       json = Inr (JObj [(lit ''error'', JObj [(lit ''message'', JStr (lit ''bad key''))])]) \<rparr>"

text \<open>HTTP 502 with a body that is not JSON: \<open>response.json()\<close> rejects.\<close>

definition bad_gateway_html :: "int response" where
  "bad_gateway_html =
     \<lparr> status = 502,
       json = Inl (SyntaxError (lit ''Unexpected token < in JSON at position 0'')) \<rparr>"


section \<open>Helper facts\<close>

lemma messageHistory_copy:
  "map (\<lambda>msg. \<lparr> role = role msg, content = content msg \<rparr>) ms = ms"
  by (induction ms) simp_all

lemma provider_tags_distinct:
  "lit ''openai'' \<noteq> lit ''anthropic''" "lit ''anthropic'' \<noteq> lit ''openai''"
  by (simp_all add: lit_def)

lemma handleSubmit_anthropic:
  assumes "trim (input s) \<noteq> []" and "\<not> isLoading s" and "apiKey s \<noteq> []"
    and "provider s = lit ''anthropic''"
  shows "handleSubmit eng s =
     (s\<lparr>messages := messages s @ [\<lparr> role = lit ''user'', content = Val (JStr (input s)) \<rparr>],
        input := [], isLoading := True\<rparr>,
      Some (Anthropic, callAnthropicAPI_fetch eng (apiKey s)
              (messages s @ [\<lparr> role = lit ''user'', content = Val (JStr (input s)) \<rparr>])))"
  using assms by (simp add: handleSubmit_def Let_def messageHistory_copy)

lemma handleSubmit_openai:
  assumes "trim (input s) \<noteq> []" and "\<not> isLoading s" and "apiKey s \<noteq> []"
    and "provider s = lit ''openai''"
  shows "handleSubmit eng s =
     (s\<lparr>messages := messages s @ [\<lparr> role = lit ''user'', content = Val (JStr (input s)) \<rparr>],
        input := [], isLoading := True\<rparr>,
      Some (OpenAI, callOpenAIAPI_fetch eng (apiKey s)
              (messages s @ [\<lparr> role = lit ''user'', content = Val (JStr (input s)) \<rparr>])))"
  using assms by (simp add: handleSubmit_def Let_def messageHistory_copy provider_tags_distinct)

lemma anthropic_success_needs_2xx:
  "callAnthropicAPI_resume eng outcome = Inr v \<Longrightarrow>
     \<exists>r data. outcome = Fulfilled r \<and> ok r \<and> json r = Inr data"
  by (auto simp add: callAnthropicAPI_resume_def and_then_def
        split: fetch_outcome.splits if_splits sum.splits)

lemma openai_success_needs_2xx:
  "callOpenAIAPI_resume eng outcome = Inr v \<Longrightarrow>
     \<exists>r data. outcome = Fulfilled r \<and> ok r \<and> json r = Inr data"
  by (auto simp add: callOpenAIAPI_resume_def and_then_def
        split: fetch_outcome.splits if_splits sum.splits)

lemma non_2xx_resume:
  "\<not> ok r \<Longrightarrow> json r = Inr b \<Longrightarrow> adapter_resume eng a (Fulfilled r) = Inl (api_error eng b)"
  by (cases a)
     (simp_all add: adapter_resume_def callAnthropicAPI_resume_def callOpenAIAPI_resume_def
        and_then_def)

lemma api_error_message:
  "map_of kvs (lit ''error'') = Some (JObj kvs') \<Longrightarrow>
   map_of kvs' (lit ''message'') = Some (JStr m) \<Longrightarrow> m \<noteq> [] \<Longrightarrow>
   api_error eng (JObj kvs) = Error m"
  by (simp add: api_error_def and_then_def get_named_def get_optional_def truthy_def
        new_Error_def ToString_def)

lemma api_error_generic_no_error:
  "b \<noteq> JNull \<Longrightarrow> \<forall>kvs. b = JObj kvs \<longrightarrow> map_of kvs (lit ''error'') = None \<Longrightarrow>
   api_error eng b = Error (lit ''API request failed'')"
  by (cases b)
     (simp_all add: api_error_def and_then_def get_named_def get_optional_def truthy_def
        new_Error_def ToString_def)

lemma api_error_generic_no_message:
  "map_of kvs (lit ''error'') = Some v \<Longrightarrow>
   \<forall>kvs'. v = JObj kvs' \<longrightarrow>
      map_of kvs' (lit ''message'') \<in> {None, Some JNull, Some (JStr [])} \<Longrightarrow>
   api_error eng (JObj kvs) = Error (lit ''API request failed'')"
  by (cases v)
     (auto simp add: api_error_def and_then_def get_named_def get_optional_def truthy_def
        new_Error_def ToString_def split: option.splits)

lemma step_keeps_messages: "prefix (messages (ui c)) (messages (ui (step eng c ev)))"
  by (cases ev)
     (auto simp add: step_def saveSettings_def clearSettings_def settings_effect_def
        handleSubmit_def handleSubmit_resume_def settle_def Let_def
        split: option.splits prod.splits if_splits)


section \<open>The preference store\<close>

text \<open>
  Claim C3, as amended. \<open>saveSettings\<close> stores the trimmed key, so for every key whose
  trimmed form is non-empty and every non-empty provider value, saving and then loading
  (into any component state, in particular the initial one of the next page session)
  yields the trimmed key and the provider; both store entries hold exactly these.
\<close>

theorem save_then_load_returns_trimmed_pair:
  assumes "trim (apiKey s) \<noteq> []" and "provider s \<noteq> []"
  shows "getItem (fst (saveSettings st s)) (lit ''ai_api_key'') = Some (trim (apiKey s))
       \<and> getItem (fst (saveSettings st s)) (lit ''ai_provider'') = Some (provider s)
       \<and> apiKey (load (fst (saveSettings st s)) s') = trim (apiKey s)
       \<and> provider (load (fst (saveSettings st s)) s') = provider s"
  using assms
  by (simp add: saveSettings_def load_def getItem_def setItem_def lit_def Let_def)

theorem save_then_load_returns_trimmed_pair_witness:
  "apiKey (load (fst (saveSettings Map.empty
             (ui (example_session (lit '' sk-ant-x '') (lit ''openai'') []))))
           (initial_state (lit ''A sarcastic cooking assistant'') :: int state))
     = lit ''sk-ant-x''
   \<and> provider (load (fst (saveSettings Map.empty
             (ui (example_session (lit '' sk-ant-x '') (lit ''openai'') []))))
           (initial_state (lit ''A sarcastic cooking assistant'') :: int state))
     = lit ''openai''"
proof -
  let ?s = "ui (example_session (lit '' sk-ant-x '') (lit ''openai'') [])"
  have t: "trim (apiKey ?s) = lit ''sk-ant-x''"
    by (simp add: example_session_def trim_def lit_def isWhiteSpace_def)
  have h1: "trim (apiKey ?s) \<noteq> []"
    by (simp add: t) (simp add: lit_def)
  have h2: "provider ?s \<noteq> []"
    by (simp add: example_session_def lit_def)
  have p: "provider ?s = lit ''openai''"
    by (simp add: example_session_def)
  from save_then_load_returns_trimmed_pair
         [OF h1 h2, of Map.empty
            "initial_state (lit ''A sarcastic cooking assistant'') :: int state"]
  show ?thesis by (simp add: t p)
qed

text \<open>
  Claim C3 as stated fails: the key \<open>" sk-ant-x"\<close> has a non-empty trimmed form, and
  after save and load the key read back is not the one passed to save.
\<close>

theorem save_then_load_counterexample:
  "trim (lit '' sk-ant-x'') \<noteq> []
   \<and> apiKey (load (fst (saveSettings Map.empty
               (ui (example_session (lit '' sk-ant-x'') (lit ''anthropic'') []))))
             (initial_state (lit ''A sarcastic cooking assistant'') :: int state))
       \<noteq> lit '' sk-ant-x''"
  by (simp add: saveSettings_def load_def getItem_def setItem_def example_session_def Let_def
        trim_def isWhiteSpace_def initial_state_def lit_def)

text \<open>
  Claim C4. Whatever the store held, after \<open>clearSettings\<close> both entries are absent, and
  loading changes nothing: from the initial state the key is empty and the provider is
  the default.
\<close>

theorem clear_then_load_is_empty:
  "getItem (fst (clearSettings st s)) (lit ''ai_api_key'') = None
   \<and> getItem (fst (clearSettings st s)) (lit ''ai_provider'') = None
   \<and> load (fst (clearSettings st s)) s' = s'
   \<and> apiKey (load (fst (clearSettings st s)) (initial_state d)) = []
   \<and> provider (load (fst (clearSettings st s)) (initial_state d)) = lit ''anthropic''"
  by (simp add: clearSettings_def load_def getItem_def removeItem_def initial_state_def Let_def)


section \<open>Submitting\<close>

text \<open>
  Claim C2. With a blank input, or while a call is in flight, or with an empty key,
  submitting changes nothing at all: the session, hence the message list, is the same
  afterwards, and no \<open>fetch\<close> call is made.
\<close>

theorem blocked_submit_is_noop:
  assumes "trim (input (ui c)) = [] \<or> isLoading (ui c) \<or> apiKey (ui c) = []"
  shows "handleSubmit eng (ui c) = (ui c, None)
       \<and> step eng c Submit = c
       \<and> messages (ui (step eng c Submit)) = messages (ui c)
       \<and> fetched (step eng c Submit) = fetched c"
  using assms by (auto simp add: handleSubmit_def step_def)

theorem blocked_submit_is_noop_witness:
  "messages (ui (step example_engine
       (example_session (lit ''sk-ant-x'') (lit ''anthropic'') (lit ''   '')) Submit))
     = messages (ui (example_session (lit ''sk-ant-x'') (lit ''anthropic'') (lit ''   '')))
   \<and> fetched (step example_engine
       (example_session (lit ''sk-ant-x'') (lit ''anthropic'') (lit ''   '')) Submit) = []"
proof -
  let ?c = "example_session (lit ''sk-ant-x'') (lit ''anthropic'') (lit ''   '')"
  have "trim (input (ui ?c)) = []"
    by (simp add: example_session_def trim_def lit_def isWhiteSpace_def)
  then have h: "trim (input (ui ?c)) = [] \<or> isLoading (ui ?c) \<or> apiKey (ui ?c) = []"
    by simp
  have f: "fetched ?c = []"
    by (simp add: example_session_def)
  from blocked_submit_is_noop [OF h, of example_engine] show ?thesis
    by (simp add: f)
qed

text \<open>
  Claim C10. When the submit goes through, the user message appended right after the old
  messages has the raw input as content, surrounding whitespace included, and it is this
  message that ends the history sent to either provider; \<open>trim\<close> is used by the guard only.
\<close>

theorem user_message_keeps_raw_input:
  assumes "trim (input s) \<noteq> []" and "\<not> isLoading s" and "apiKey s \<noteq> []"
  shows "prefix (messages s @ [\<lparr> role = lit ''user'', content = Val (JStr (input s)) \<rparr>])
                (messages (fst (handleSubmit eng s)))
       \<and> (provider s = lit ''anthropic'' \<longrightarrow>
            snd (handleSubmit eng s) =
              Some (Anthropic, callAnthropicAPI_fetch eng (apiKey s) (messages s @ [\<lparr> role = lit ''user'', content = Val (JStr (input s)) \<rparr>])))
       \<and> (provider s = lit ''openai'' \<longrightarrow>
            snd (handleSubmit eng s) =
              Some (OpenAI, callOpenAIAPI_fetch eng (apiKey s) (messages s @ [\<lparr> role = lit ''user'', content = Val (JStr (input s)) \<rparr>])))"
  using assms
  by (auto simp add: handleSubmit_def handleSubmit_resume_def Let_def messageHistory_copy
        provider_tags_distinct prefix_def)

theorem user_message_keeps_raw_input_witness:
  "messages (fst (handleSubmit example_engine
       (ui (example_session (lit ''sk-ant-x'') (lit ''anthropic'') (lit ''  hello '')))))
     ! 1 = \<lparr> role = lit ''user'', content = Val (JStr (lit ''  hello '')) \<rparr>
   \<and> lit ''  hello '' \<noteq> trim (lit ''  hello '')"
proof -
  let ?s = "ui (example_session (lit ''sk-ant-x'') (lit ''anthropic'') (lit ''  hello ''))"
  have t: "trim (lit ''  hello '') = lit ''hello''"
    by (simp add: trim_def lit_def isWhiteSpace_def)
  have i: "input ?s = lit ''  hello ''"
    by (simp add: example_session_def)
  have h1: "trim (input ?s) \<noteq> []"
    by (simp add: i t) (simp add: lit_def)
  have h2: "\<not> isLoading ?s"
    by (simp add: example_session_def initial_state_def)
  have h3: "apiKey ?s \<noteq> []"
    by (simp add: example_session_def lit_def)
  have l: "length (messages ?s) = 1"
    by (simp add: example_session_def initial_state_def)
  from user_message_keeps_raw_input [OF h1 h2 h3, of example_engine]
  have "prefix (messages ?s @ [\<lparr> role = lit ''user'', content = Val (JStr (input ?s)) \<rparr>])
               (messages (fst (handleSubmit example_engine ?s)))"
    by (rule conjunct1)
  then obtain zs where
    "messages (fst (handleSubmit example_engine ?s))
       = (messages ?s @ [\<lparr> role = lit ''user'', content = Val (JStr (input ?s)) \<rparr>]) @ zs"
    by (auto simp add: prefix_def)
  then have "messages (fst (handleSubmit example_engine ?s)) ! 1
       = \<lparr> role = lit ''user'', content = Val (JStr (input ?s)) \<rparr>"
    using l by (simp add: nth_append)
  then show ?thesis
    by (simp add: i t) (simp add: lit_def)
qed

text \<open>
  Claim C9. With a provider value that is neither tag, a submit that passes the guard
  appends the user message, calls no adapter (no \<open>fetch\<close>, nothing awaited), throws
  nothing, appends an assistant message whose content is \<open>undefined\<close>, and ends with the
  in-flight flag cleared.
\<close>

theorem unknown_provider_turn:
  assumes "trim (input s) \<noteq> []" and "\<not> isLoading s" and "apiKey s \<noteq> []"
    and "provider s \<noteq> lit ''anthropic''" and "provider s \<noteq> lit ''openai''"
  shows "handleSubmit eng s =
           (s\<lparr>messages := messages s @
                 [\<lparr> role = lit ''user'', content = Val (JStr (input s)) \<rparr>, \<lparr> role = lit ''assistant'', content = Undefined \<rparr>],
              input := [], isLoading := False\<rparr>, None)"
  using assms
  by (simp add: handleSubmit_def handleSubmit_resume_def Let_def)

theorem unknown_provider_turn_witness:
  "handleSubmit example_engine
     (ui (example_session (lit ''sk-ant-x'') (lit ''gemini'') (lit ''hello'')))
   = ((ui (example_session (lit ''sk-ant-x'') (lit ''gemini'') (lit ''hello'')))
        \<lparr>messages := messages (ui (example_session (lit ''sk-ant-x'') (lit ''gemini'')
                                     (lit ''hello''))) @
           [\<lparr> role = lit ''user'',
              content = Val (JStr (input (ui (example_session (lit ''sk-ant-x'')
                                                (lit ''gemini'') (lit ''hello''))))) \<rparr>,
            \<lparr> role = lit ''assistant'', content = Undefined \<rparr>],
         input := [], isLoading := False\<rparr>, None)"
  by (rule unknown_provider_turn)
     (simp_all add: example_session_def initial_state_def trim_def isWhiteSpace_def lit_def)

text \<open>
  Claim C1. A submit with non-blank input, a non-empty key and no call in flight: when
  an adapter is called, the state it leaves has exactly the user message (content: the
  input) appended and the flag set; and once the call has settled, whatever the outcome,
  the conversation is the old one followed by that user message and one assistant
  message, whose content is the returned text if the adapter returned and the error
  string built from the exception's message if it threw. The turn adds two messages.
\<close>

theorem completed_turn_appends_user_then_assistant:
  assumes "trim (input s) \<noteq> []" and "\<not> isLoading s" and "apiKey s \<noteq> []"
  shows "(\<forall>a req. snd (handleSubmit eng s) = Some (a, req) \<longrightarrow>
            messages (fst (handleSubmit eng s)) = messages s @ [\<lparr> role = lit ''user'', content = Val (JStr (input s)) \<rparr>]
            \<and> isLoading (fst (handleSubmit eng s)))
       \<and> (\<exists>c. messages (turn eng outcome s)
                = messages s @ [\<lparr> role = lit ''user'', content = Val (JStr (input s)) \<rparr>, \<lparr> role = lit ''assistant'', content = c \<rparr>]
            \<and> (\<forall>a req text. snd (handleSubmit eng s) = Some (a, req)
                   \<and> adapter_resume eng a outcome = Inr text \<longrightarrow> c = text)
            \<and> (\<forall>a req e. snd (handleSubmit eng s) = Some (a, req)
                   \<and> adapter_resume eng a outcome = Inl e \<longrightarrow>
                   c = Val (JStr (lit ''Error: '' @ message e
                                  @ lit ''. Please check your API key in settings.''))))
       \<and> length (messages (turn eng outcome s)) = length (messages s) + 2
       \<and> \<not> isLoading (turn eng outcome s)"
  using assms
  by (auto simp add: handleSubmit_def turn_def settle_def handleSubmit_resume_def Let_def
        split: sum.splits)

theorem completed_turn_appends_user_then_assistant_witness:
  "messages (turn example_engine anthropic_hi_there
      (ui (example_session (lit ''sk-ant-x'') (lit ''anthropic'') (lit ''hello''))))
   = [\<lparr> role = lit ''assistant'',
        content = Val (JStr (lit ''Hello! I'm A sarcastic cooking assistant. How can I help you today?'')) \<rparr>,
      \<lparr> role = lit ''user'', content = Val (JStr (lit ''hello'')) \<rparr>,
      \<lparr> role = lit ''assistant'', content = Val (JStr (lit ''hi there'')) \<rparr>]"
proof -
  let ?s = "ui (example_session (lit ''sk-ant-x'') (lit ''anthropic'') (lit ''hello''))"
  have h1: "trim (input ?s) \<noteq> []"
    by (simp add: example_session_def trim_def isWhiteSpace_def lit_def)
  have h2: "\<not> isLoading ?s"
    by (simp add: example_session_def initial_state_def)
  have h3: "apiKey ?s \<noteq> []"
    by (simp add: example_session_def lit_def)
  have p: "provider ?s = lit ''anthropic''"
    by (simp add: example_session_def)
  have sub: "snd (handleSubmit example_engine ?s) =
      Some (Anthropic, callAnthropicAPI_fetch example_engine (apiKey ?s)
              (messages ?s @ [\<lparr> role = lit ''user'', content = Val (JStr (input ?s)) \<rparr>]))"
    by (simp add: handleSubmit_anthropic [OF h1 h2 h3 p])
  have res: "adapter_resume example_engine Anthropic anthropic_hi_there
               = Inr (Val (JStr (lit ''hi there'')))"
    by (simp add: adapter_resume_def callAnthropicAPI_resume_def anthropic_hi_there_def
          ok_def and_then_def get_named_def get_index0_def)
  from completed_turn_appends_user_then_assistant
         [OF h1 h2 h3, of example_engine anthropic_hi_there]
  obtain c where
    m: "messages (turn example_engine anthropic_hi_there ?s)
          = messages ?s @ [\<lparr> role = lit ''user'', content = Val (JStr (input ?s)) \<rparr>,
                           \<lparr> role = lit ''assistant'', content = c \<rparr>]"
    and r: "\<forall>a req text. snd (handleSubmit example_engine ?s) = Some (a, req)
               \<and> adapter_resume example_engine a anthropic_hi_there = Inr text \<longrightarrow> c = text"
    by blast
  from r sub res have "c = Val (JStr (lit ''hi there''))"
    by blast
  with m show ?thesis
    by (simp add: example_session_def initial_state_def lit_def)
qed


section \<open>The adapters\<close>

text \<open>
  Claim C5. A send to the first provider with any history makes the \<open>fetch\<close> call with
  method POST, the raw key in the \<open>x-api-key\<close> header and the fixed version string, and
  as body the serialisation of the fixed model, the fixed \<open>max_tokens\<close> and the history
  as it is. A turn that passes the guard with this provider makes exactly this one call,
  on the old messages followed by the user message. When the response is 2xx and its
  content array starts with an object having a \<open>text\<close>, that text is the result; and the
  adapter returns only on a 2xx response whose body parsed.
\<close>

theorem anthropic_send:
  "callAnthropicAPI_fetch eng key history =
     \<lparr> url = lit ''https://api.anthropic.com/v1/messages'',
       http_method = lit ''POST'',
       headers = [(lit ''Content-Type'', lit ''application/json''),
                  (lit ''x-api-key'', key),
                  (lit ''anthropic-version'', lit ''2023-06-01'')],
       body = JSON_stringify eng
                [(lit ''model'', Text (lit ''claude-3-5-sonnet-20241022'')),
                 (lit ''max_tokens'', Number 2048),
                 (lit ''messages'', Messages history)] \<rparr>
   \<and> (\<forall>c. trim (input (ui c)) \<noteq> [] \<and> \<not> isLoading (ui c) \<and> apiKey (ui c) \<noteq> []
          \<and> provider (ui c) = lit ''anthropic''
          \<and> history = messages (ui c) @
               [\<lparr> role = lit ''user'', content = Val (JStr (input (ui c))) \<rparr>]
        \<longrightarrow> fetched (run eng c [Submit, Settled outcome])
              = fetched c @ [callAnthropicAPI_fetch eng (apiKey (ui c)) history])
   \<and> (\<forall>r kvs first rest t.
          ok r \<and> json r = Inr (JObj kvs)
          \<and> map_of kvs (lit ''content'') = Some (JArr (JObj first # rest))
          \<and> map_of first (lit ''text'') = Some t
        \<longrightarrow> callAnthropicAPI_resume eng (Fulfilled r) = Inr (Val t))
   \<and> (\<forall>v. callAnthropicAPI_resume eng outcome = Inr v \<longrightarrow>
          (\<exists>r data. outcome = Fulfilled r \<and> ok r \<and> json r = Inr data))"
proof (intro conjI allI impI)
  show "callAnthropicAPI_fetch eng key history =
     \<lparr> url = lit ''https://api.anthropic.com/v1/messages'',
       http_method = lit ''POST'',
       headers = [(lit ''Content-Type'', lit ''application/json''),
                  (lit ''x-api-key'', key),
                  (lit ''anthropic-version'', lit ''2023-06-01'')],
       body = JSON_stringify eng
                [(lit ''model'', Text (lit ''claude-3-5-sonnet-20241022'')),
                 (lit ''max_tokens'', Number 2048),
                 (lit ''messages'', Messages history)] \<rparr>"
    by (simp add: callAnthropicAPI_fetch_def)
next
  fix c :: "'a session"
  assume "trim (input (ui c)) \<noteq> [] \<and> \<not> isLoading (ui c) \<and> apiKey (ui c) \<noteq> []
          \<and> provider (ui c) = lit ''anthropic''
          \<and> history = messages (ui c) @
               [\<lparr> role = lit ''user'', content = Val (JStr (input (ui c))) \<rparr>]"
  then have "handleSubmit eng (ui c) =
     ((ui c)\<lparr>messages := history, input := [], isLoading := True\<rparr>,
      Some (Anthropic, callAnthropicAPI_fetch eng (apiKey (ui c)) history))"
    using handleSubmit_anthropic [of "ui c" eng] by simp
  then show "fetched (run eng c [Submit, Settled outcome])
              = fetched c @ [callAnthropicAPI_fetch eng (apiKey (ui c)) history]"
    by (simp add: run_def step_def)
next
  fix r :: "'a response" and kvs first rest t
  assume "ok r \<and> json r = Inr (JObj kvs)
          \<and> map_of kvs (lit ''content'') = Some (JArr (JObj first # rest))
          \<and> map_of first (lit ''text'') = Some t"
  then show "callAnthropicAPI_resume eng (Fulfilled r) = Inr (Val t)"
    by (simp add: callAnthropicAPI_resume_def and_then_def get_named_def get_index0_def)
next
  fix v
  assume "callAnthropicAPI_resume eng outcome = Inr v"
  then show "\<exists>r data. outcome = Fulfilled r \<and> ok r \<and> json r = Inr data"
    by (rule anthropic_success_needs_2xx)
qed

theorem anthropic_send_witness:
  "fetched (run example_engine
      (example_session (lit ''sk-ant-x'') (lit ''anthropic'') (lit ''hello''))
      [Submit, Settled anthropic_hi_there])
     = [callAnthropicAPI_fetch example_engine (lit ''sk-ant-x'')
          (messages (initial_state (lit ''A sarcastic cooking assistant'')) @
             [\<lparr> role = lit ''user'', content = Val (JStr (lit ''hello'')) \<rparr>])]
   \<and> callAnthropicAPI_resume example_engine anthropic_hi_there
       = Inr (Val (JStr (lit ''hi there'')))"
proof -
  let ?c = "example_session (lit ''sk-ant-x'') (lit ''anthropic'') (lit ''hello'')"
  let ?h = "messages (initial_state (lit ''A sarcastic cooking assistant'')) @
             [\<lparr> role = lit ''user'', content = Val (JStr (lit ''hello'')) \<rparr>]
            :: int message list"
  let ?r = "\<lparr> status = 200,
              json = Inr (JObj [(lit ''content'',
                       JArr [JObj [(lit ''text'', JStr (lit ''hi there''))]])]) \<rparr>
            :: int response"
  note send = anthropic_send [of example_engine "lit ''sk-ant-x''" ?h anthropic_hi_there]
  have g: "trim (input (ui ?c)) \<noteq> [] \<and> \<not> isLoading (ui ?c) \<and> apiKey (ui ?c) \<noteq> []
          \<and> provider (ui ?c) = lit ''anthropic''
          \<and> ?h = messages (ui ?c) @
               [\<lparr> role = lit ''user'', content = Val (JStr (input (ui ?c))) \<rparr>]"
    by (simp add: example_session_def initial_state_def trim_def isWhiteSpace_def lit_def)
  have k: "apiKey (ui ?c) = lit ''sk-ant-x''" and f: "fetched ?c = []"
    by (simp_all add: example_session_def)
  from send g have one: "fetched (run example_engine ?c [Submit, Settled anthropic_hi_there])
              = fetched ?c @ [callAnthropicAPI_fetch example_engine (apiKey (ui ?c)) ?h]"
    by blast
  have shape: "ok ?r \<and> json ?r = Inr (JObj [(lit ''content'',
                       JArr [JObj [(lit ''text'', JStr (lit ''hi there''))]])])
          \<and> map_of [(lit ''content'',
                       JArr [JObj [(lit ''text'', JStr (lit ''hi there'') :: int json)]])]
                (lit ''content'')
              = Some (JArr (JObj [(lit ''text'', JStr (lit ''hi there''))] # []))
          \<and> map_of [(lit ''text'', JStr (lit ''hi there'') :: int json)] (lit ''text'')
              = Some (JStr (lit ''hi there''))"
    by (simp add: ok_def)
  from send shape have "callAnthropicAPI_resume example_engine (Fulfilled ?r)
       = Inr (Val (JStr (lit ''hi there'')))"
    by blast
  with one show ?thesis
    by (simp add: k f anthropic_hi_there_def)
qed

text \<open>
  Claim C6. A send to the second provider with any history makes the \<open>fetch\<close> call with
  method POST and the header \<open>Authorization: Bearer\<close> followed by the key, and as body the
  serialisation of the fixed model and the history as it is. A turn that passes the guard
  with this provider makes exactly this one call. When the response is 2xx and its
  choices array starts with an object whose \<open>message\<close> object has a \<open>content\<close>, that
  content is the result; and the adapter returns only on a 2xx response whose body parsed.
\<close>

theorem openai_send:
  "callOpenAIAPI_fetch eng key history =
     \<lparr> url = lit ''https://api.openai.com/v1/chat/completions'',
       http_method = lit ''POST'',
       headers = [(lit ''Content-Type'', lit ''application/json''),
                  (lit ''Authorization'', lit ''Bearer '' @ key)],
       body = JSON_stringify eng
                [(lit ''model'', Text (lit ''gpt-4'')),
                 (lit ''messages'', Messages history)] \<rparr>
   \<and> (\<forall>c. trim (input (ui c)) \<noteq> [] \<and> \<not> isLoading (ui c) \<and> apiKey (ui c) \<noteq> []
          \<and> provider (ui c) = lit ''openai''
          \<and> history = messages (ui c) @
               [\<lparr> role = lit ''user'', content = Val (JStr (input (ui c))) \<rparr>]
        \<longrightarrow> fetched (run eng c [Submit, Settled outcome])
              = fetched c @ [callOpenAIAPI_fetch eng (apiKey (ui c)) history])
   \<and> (\<forall>r kvs first rest m t.
          ok r \<and> json r = Inr (JObj kvs)
          \<and> map_of kvs (lit ''choices'') = Some (JArr (JObj first # rest))
          \<and> map_of first (lit ''message'') = Some (JObj m)
          \<and> map_of m (lit ''content'') = Some t
        \<longrightarrow> callOpenAIAPI_resume eng (Fulfilled r) = Inr (Val t))
   \<and> (\<forall>v. callOpenAIAPI_resume eng outcome = Inr v \<longrightarrow>
          (\<exists>r data. outcome = Fulfilled r \<and> ok r \<and> json r = Inr data))"
proof (intro conjI allI impI)
  show "callOpenAIAPI_fetch eng key history =
     \<lparr> url = lit ''https://api.openai.com/v1/chat/completions'',
       http_method = lit ''POST'',
       headers = [(lit ''Content-Type'', lit ''application/json''),
                  (lit ''Authorization'', lit ''Bearer '' @ key)],
       body = JSON_stringify eng
                [(lit ''model'', Text (lit ''gpt-4'')),
                 (lit ''messages'', Messages history)] \<rparr>"
    by (simp add: callOpenAIAPI_fetch_def)
next
  fix c :: "'a session"
  assume "trim (input (ui c)) \<noteq> [] \<and> \<not> isLoading (ui c) \<and> apiKey (ui c) \<noteq> []
          \<and> provider (ui c) = lit ''openai''
          \<and> history = messages (ui c) @
               [\<lparr> role = lit ''user'', content = Val (JStr (input (ui c))) \<rparr>]"
  then have "handleSubmit eng (ui c) =
     ((ui c)\<lparr>messages := history, input := [], isLoading := True\<rparr>,
      Some (OpenAI, callOpenAIAPI_fetch eng (apiKey (ui c)) history))"
    using handleSubmit_openai [of "ui c" eng] by simp
  then show "fetched (run eng c [Submit, Settled outcome])
              = fetched c @ [callOpenAIAPI_fetch eng (apiKey (ui c)) history]"
    by (simp add: run_def step_def)
next
  fix r :: "'a response" and kvs first rest m t
  assume "ok r \<and> json r = Inr (JObj kvs)
          \<and> map_of kvs (lit ''choices'') = Some (JArr (JObj first # rest))
          \<and> map_of first (lit ''message'') = Some (JObj m)
          \<and> map_of m (lit ''content'') = Some t"
  then show "callOpenAIAPI_resume eng (Fulfilled r) = Inr (Val t)"
    by (simp add: callOpenAIAPI_resume_def and_then_def get_named_def get_index0_def)
next
  fix v
  assume "callOpenAIAPI_resume eng outcome = Inr v"
  then show "\<exists>r data. outcome = Fulfilled r \<and> ok r \<and> json r = Inr data"
    by (rule openai_success_needs_2xx)
qed

theorem openai_send_witness:
  "fetched (run example_engine
      (example_session (lit ''sk-x'') (lit ''openai'') (lit ''hello''))
      [Submit, Settled openai_hi_there])
     = [callOpenAIAPI_fetch example_engine (lit ''sk-x'')
          (messages (initial_state (lit ''A sarcastic cooking assistant'')) @
             [\<lparr> role = lit ''user'', content = Val (JStr (lit ''hello'')) \<rparr>])]
   \<and> callOpenAIAPI_resume example_engine openai_hi_there
       = Inr (Val (JStr (lit ''hi there'')))
   \<and> headers (callOpenAIAPI_fetch example_engine (lit ''sk-x'') [])
       = [(lit ''Content-Type'', lit ''application/json''),
          (lit ''Authorization'', lit ''Bearer sk-x'')]"
proof -
  let ?c = "example_session (lit ''sk-x'') (lit ''openai'') (lit ''hello'')"
  let ?h = "messages (initial_state (lit ''A sarcastic cooking assistant'')) @
             [\<lparr> role = lit ''user'', content = Val (JStr (lit ''hello'')) \<rparr>]
            :: int message list"
  let ?m = "[(lit ''content'', JStr (lit ''hi there''))] :: (jsstring \<times> int json) list"
  let ?first = "[(lit ''message'', JObj ?m)]"
  let ?kvs = "[(lit ''choices'', JArr [JObj ?first])]"
  let ?r = "\<lparr> status = 200, json = Inr (JObj ?kvs) \<rparr> :: int response"
  note send = openai_send [of example_engine "lit ''sk-x''" ?h openai_hi_there]
  have g: "trim (input (ui ?c)) \<noteq> [] \<and> \<not> isLoading (ui ?c) \<and> apiKey (ui ?c) \<noteq> []
          \<and> provider (ui ?c) = lit ''openai''
          \<and> ?h = messages (ui ?c) @
               [\<lparr> role = lit ''user'', content = Val (JStr (input (ui ?c))) \<rparr>]"
    by (simp add: example_session_def initial_state_def trim_def isWhiteSpace_def lit_def)
  have k: "apiKey (ui ?c) = lit ''sk-x''" and f: "fetched ?c = []"
    by (simp_all add: example_session_def)
  from send g have one: "fetched (run example_engine ?c [Submit, Settled openai_hi_there])
              = fetched ?c @ [callOpenAIAPI_fetch example_engine (apiKey (ui ?c)) ?h]"
    by blast
  have shape: "ok ?r \<and> json ?r = Inr (JObj ?kvs)
          \<and> map_of ?kvs (lit ''choices'') = Some (JArr (JObj ?first # []))
          \<and> map_of ?first (lit ''message'') = Some (JObj ?m)
          \<and> map_of ?m (lit ''content'') = Some (JStr (lit ''hi there''))"
    by (simp add: ok_def)
  from send shape have res: "callOpenAIAPI_resume example_engine (Fulfilled ?r)
       = Inr (Val (JStr (lit ''hi there'')))"
    by blast
  from openai_send [of example_engine "lit ''sk-x''" "[]" openai_hi_there]
  have "headers (callOpenAIAPI_fetch example_engine (lit ''sk-x'') [])
       = [(lit ''Content-Type'', lit ''application/json''),
          (lit ''Authorization'', lit ''Bearer '' @ lit ''sk-x'')]"
    by simp
  then have hd: "headers (callOpenAIAPI_fetch example_engine (lit ''sk-x'') [])
       = [(lit ''Content-Type'', lit ''application/json''),
          (lit ''Authorization'', lit ''Bearer sk-x'')]"
    by (simp add: lit_def)
  from one res hd show ?thesis
    by (simp add: k f openai_hi_there_def)
qed


section \<open>Failures\<close>

text \<open>
  Claim C7, as amended. On a response that is not 2xx and whose body parses to a JSON
  value other than \<open>null\<close>, either adapter throws an \<open>Error\<close>: its message is the body's
  \<open>error.message\<close> when that is a non-empty string, and \<open>API request failed\<close> when the
  body has no \<open>error\<close>, or \<open>error\<close> has no \<open>message\<close>, or the message is \<open>null\<close> or the
  empty string. Whatever is thrown, the resumed handler appends one assistant message
  made of \<open>Error: \<close>, the exception's message and the hint to check the key.
\<close>

theorem non_2xx_error_message:
  assumes "\<not> ok r" and "json r = Inr b" and "b \<noteq> JNull"
  shows "(\<forall>kvs kvs' m. b = JObj kvs \<and> map_of kvs (lit ''error'') = Some (JObj kvs')
             \<and> map_of kvs' (lit ''message'') = Some (JStr m) \<and> m \<noteq> []
           \<longrightarrow> adapter_resume eng a (Fulfilled r) = Inl (Error m))
       \<and> ((\<forall>kvs. b = JObj kvs \<longrightarrow> map_of kvs (lit ''error'') = None)
           \<longrightarrow> adapter_resume eng a (Fulfilled r) = Inl (Error (lit ''API request failed'')))
       \<and> (\<forall>kvs v. b = JObj kvs \<and> map_of kvs (lit ''error'') = Some v
             \<and> (\<forall>kvs'. v = JObj kvs' \<longrightarrow>
                   map_of kvs' (lit ''message'') \<in> {None, Some JNull, Some (JStr [])})
           \<longrightarrow> adapter_resume eng a (Fulfilled r) = Inl (Error (lit ''API request failed'')))
       \<and> (\<exists>e. adapter_resume eng a (Fulfilled r) = Inl e
             \<and> messages (settle eng a (Fulfilled r) s) = messages s @
                 [\<lparr> role = lit ''assistant'',
                    content = Val (JStr (lit ''Error: '' @ message e
                                @ lit ''. Please check your API key in settings.'')) \<rparr>])"
proof (intro conjI allI impI)
  fix kvs kvs' m
  assume "b = JObj kvs \<and> map_of kvs (lit ''error'') = Some (JObj kvs')
             \<and> map_of kvs' (lit ''message'') = Some (JStr m) \<and> m \<noteq> []"
  with assms show "adapter_resume eng a (Fulfilled r) = Inl (Error m)"
    by (simp add: non_2xx_resume api_error_message)
next
  assume "\<forall>kvs. b = JObj kvs \<longrightarrow> map_of kvs (lit ''error'') = None"
  with assms show "adapter_resume eng a (Fulfilled r) = Inl (Error (lit ''API request failed''))"
    by (simp add: non_2xx_resume api_error_generic_no_error)
next
  fix kvs v
  assume "b = JObj kvs \<and> map_of kvs (lit ''error'') = Some v
             \<and> (\<forall>kvs'. v = JObj kvs' \<longrightarrow>
                   map_of kvs' (lit ''message'') \<in> {None, Some JNull, Some (JStr [])})"
  with assms show "adapter_resume eng a (Fulfilled r) = Inl (Error (lit ''API request failed''))"
    by (simp add: non_2xx_resume api_error_generic_no_message)
next
  from assms show "\<exists>e. adapter_resume eng a (Fulfilled r) = Inl e
             \<and> messages (settle eng a (Fulfilled r) s) = messages s @
                 [\<lparr> role = lit ''assistant'',
                    content = Val (JStr (lit ''Error: '' @ message e
                                @ lit ''. Please check your API key in settings.'')) \<rparr>]"
    by (simp add: non_2xx_resume settle_def handleSubmit_resume_def Let_def)
qed

text \<open>
  Scenario B: HTTP 401 with \<open>{error: {message: "bad key"}}\<close>, after \<open>hello\<close> was
  submitted to the first provider.
\<close>

theorem non_2xx_error_message_witness:
  "adapter_resume example_engine Anthropic (Fulfilled unauthorized_bad_key)
     = Inl (Error (lit ''bad key''))
   \<and> messages (settle example_engine Anthropic (Fulfilled unauthorized_bad_key)
        (fst (handleSubmit example_engine
           (ui (example_session (lit ''sk-ant-x'') (lit ''anthropic'') (lit ''hello''))))))
     = [\<lparr> role = lit ''assistant'',
          content = Val (JStr (lit ''Hello! I'm A sarcastic cooking assistant. How can I help you today?'')) \<rparr>,
        \<lparr> role = lit ''user'', content = Val (JStr (lit ''hello'')) \<rparr>,
        \<lparr> role = lit ''assistant'',
          content = Val (JStr (lit ''Error: bad key. Please check your API key in settings.'')) \<rparr>]"
proof -
  let ?s = "fst (handleSubmit example_engine
           (ui (example_session (lit ''sk-ant-x'') (lit ''anthropic'') (lit ''hello''))))"
  let ?inner = "[(lit ''message'', JStr (lit ''bad key''))] :: (jsstring \<times> int json) list"
  let ?kvs = "[(lit ''error'', JObj ?inner)]"
  have h1: "\<not> ok unauthorized_bad_key"
    by (simp add: ok_def unauthorized_bad_key_def)
  have h2: "json unauthorized_bad_key = Inr (JObj ?kvs)"
    by (simp add: unauthorized_bad_key_def)
  have h3: "JObj ?kvs \<noteq> JNull"
    by simp
  note inst = non_2xx_error_message [OF h1 h2 h3, of example_engine Anthropic ?s]
  have shape: "JObj ?kvs = JObj ?kvs \<and> map_of ?kvs (lit ''error'') = Some (JObj ?inner)
             \<and> map_of ?inner (lit ''message'') = Some (JStr (lit ''bad key''))
             \<and> lit ''bad key'' \<noteq> []"
    by (simp add: lit_def)
  from inst shape
  have res: "adapter_resume example_engine Anthropic (Fulfilled unauthorized_bad_key)
               = Inl (Error (lit ''bad key''))"
    by blast
  from inst obtain e where
    e: "adapter_resume example_engine Anthropic (Fulfilled unauthorized_bad_key) = Inl e"
    and m: "messages (settle example_engine Anthropic (Fulfilled unauthorized_bad_key) ?s)
              = messages ?s @
                 [\<lparr> role = lit ''assistant'',
                    content = Val (JStr (lit ''Error: '' @ message e
                                @ lit ''. Please check your API key in settings.'')) \<rparr>]"
    by blast
  from e res have "e = Error (lit ''bad key'')"
    by simp
  then have "message e = lit ''bad key''"
    by simp
  with m have "messages (settle example_engine Anthropic (Fulfilled unauthorized_bad_key) ?s)
              = messages ?s @
                 [\<lparr> role = lit ''assistant'',
                    content = Val (JStr (lit ''Error: '' @ lit ''bad key''
                                @ lit ''. Please check your API key in settings.'')) \<rparr>]"
    by simp
  moreover have "messages ?s =
       [\<lparr> role = lit ''assistant'',
          content = Val (JStr (lit ''Hello! I'm A sarcastic cooking assistant. How can I help you today?'')) \<rparr>,
        \<lparr> role = lit ''user'', content = Val (JStr (lit ''hello'')) \<rparr>]"
    by (simp add: handleSubmit_def example_session_def initial_state_def Let_def
          trim_def isWhiteSpace_def lit_def)
  ultimately show ?thesis
    using res by (simp add: lit_def)
qed

text \<open>
  Claim C7 as stated fails: on HTTP 502 with a body that is not JSON, \<open>response.json()\<close>
  rejects inside the error branch, and the adapter fails with that exception; its message
  is neither a field of the body nor the generic string.
\<close>

theorem non_2xx_error_message_counterexample:
  "\<not> ok bad_gateway_html
   \<and> callAnthropicAPI_resume example_engine (Fulfilled bad_gateway_html)
       = Inl (SyntaxError (lit ''Unexpected token < in JSON at position 0''))
   \<and> message (SyntaxError (lit ''Unexpected token < in JSON at position 0''))
       \<noteq> lit ''API request failed''"
  by (simp add: ok_def bad_gateway_html_def callAnthropicAPI_resume_def and_then_def lit_def)


section \<open>The conversation only grows\<close>

text \<open>
  Claim C8. Over every sequence of events (typing, changing key or provider, opening or
  closing the settings, save, clear, submit, a call settling), from every session, the
  message list at the start is a prefix of the message list at the end: every message
  stays, unchanged, at its position.
\<close>

theorem messages_only_grow:
  "prefix (messages (ui c)) (messages (ui (run eng c evs)))"
proof (induction evs arbitrary: c)
  case Nil
  show ?case
    by (simp add: run_def)
next
  case (Cons ev evs)
  have "prefix (messages (ui c)) (messages (ui (step eng c ev)))"
    by (rule step_keeps_messages)
  moreover
  have "prefix (messages (ui (step eng c ev))) (messages (ui (run eng (step eng c ev) evs)))"
    by (rule Cons.IH)
  ultimately show ?case
    by (simp add: run_def)
qed

end
